theory Spec2Isabelle
  imports Main
begin

section \<open>Strings of the host language\<close>

text \<open>
  The program is TypeScript. A string is modelled as a list of 8-bit characters, read as
  the code units U+0000 to U+00FF; code units above that range are outside the model.
  The character classes are those of the regular expressions of the source, without
  flags: \<^verbatim>\<open>\s\<close> (also the set removed by \<^verbatim>\<open>trim\<close>), \<^verbatim>\<open>\w\<close>,
  \<^verbatim>\<open>[a-zA-Z_]\<close>, and the line terminators that \<^verbatim>\<open>.\<close> does not match.
\<close>

definition isLineTerminator :: "char \<Rightarrow> bool" where
  "isLineTerminator c \<longleftrightarrow> c = CHR 0x0A \<or> c = CHR 0x0D"

definition isSpace :: "char \<Rightarrow> bool" where
  "isSpace c \<longleftrightarrow>
     c = CHR 0x09 \<or> c = CHR 0x0A \<or> c = CHR 0x0B \<or> c = CHR 0x0C \<or> c = CHR 0x0D \<or>
     c = CHR 0x20 \<or> c = CHR 0xA0"

definition isIdentStart :: "char \<Rightarrow> bool" where
  "isIdentStart c \<longleftrightarrow>
     (let n = (of_char c :: nat) in (97 \<le> n \<and> n \<le> 122) \<or> (65 \<le> n \<and> n \<le> 90) \<or> n = 95)"

definition isWordChar :: "char \<Rightarrow> bool" where
  "isWordChar c \<longleftrightarrow>
     (let n = (of_char c :: nat) in
        (97 \<le> n \<and> n \<le> 122) \<or> (65 \<le> n \<and> n \<le> 90) \<or> (48 \<le> n \<and> n \<le> 57) \<or> n = 95)"

text \<open>\<^verbatim>\<open>s.startsWith(p)\<close>, \<^verbatim>\<open>s.endsWith(p)\<close> and \<^verbatim>\<open>s.includes(p)\<close>.\<close>

definition startsWith :: "string \<Rightarrow> string \<Rightarrow> bool" where
  "startsWith s p \<longleftrightarrow> take (length p) s = p"

definition endsWith :: "string \<Rightarrow> string \<Rightarrow> bool" where
  "endsWith s p \<longleftrightarrow> startsWith (rev s) (rev p)"

fun includesStr :: "string \<Rightarrow> string \<Rightarrow> bool" where
  "includesStr [] p = (p = [])"
| "includesStr (c # cs) p = (startsWith (c # cs) p \<or> includesStr cs p)"

text \<open>\<^verbatim>\<open>s.trim()\<close>.\<close>

definition trim :: "string \<Rightarrow> string" where
  "trim s = rev (dropWhile isSpace (rev (dropWhile isSpace s)))"

text \<open>
  \<^verbatim>\<open>s.split(d)\<close> for a one-character separator: never the empty list, the empty
  string gives one empty piece. \<^verbatim>\<open>parts.join(d)\<close> is its inverse.
\<close>

fun splitOn :: "char \<Rightarrow> string \<Rightarrow> string list" where
  "splitOn d [] = [[]]"
| "splitOn d (c # cs) =
     (if c = d then [] # splitOn d cs
      else (let r = splitOn d cs in (c # hd r) # tl r))"

fun join :: "string \<Rightarrow> string list \<Rightarrow> string" where
  "join d [] = []"
| "join d [x] = x"
| "join d (x # y # ys) = x @ d @ join d (y # ys)"

text \<open>\<^verbatim>\<open>s.split(p)[0]\<close> for a non-empty separator string: the text before its first occurrence.\<close>

fun beforeFirst :: "string \<Rightarrow> string \<Rightarrow> string" where
  "beforeFirst p [] = []"
| "beforeFirst p (c # cs) = (if startsWith (c # cs) p then [] else c # beforeFirst p cs)"

subsection \<open>replaceAll with a string pattern\<close>

text \<open>
  \<^verbatim>\<open>String.prototype.replaceAll(searchValue, replaceValue)\<close> with two strings. The
  replacement is a template: \<^verbatim>\<open>$$\<close> stands for a dollar sign, \<^verbatim>\<open>$&\<close> for the
  matched text, \<^verbatim>\<open>$`\<close> for the text before the match and \<^verbatim>\<open>$'\<close> for the text
  after it. A string pattern has no capture groups, so \<^verbatim>\<open>$1\<close> and \<^verbatim>\<open>$<\<close> stay
  as they are, like every other character.
\<close>

fun getSubstitution :: "string \<Rightarrow> string \<Rightarrow> string \<Rightarrow> string \<Rightarrow> string" where
  "getSubstitution matched pre post [] = []"
| "getSubstitution matched pre post [c] = [c]"
| "getSubstitution matched pre post (c # d # r) =
     (if c = CHR ''$'' \<and> d = CHR ''$'' then CHR ''$'' # getSubstitution matched pre post r
      else if c = CHR ''$'' \<and> d = CHR ''&'' then matched @ getSubstitution matched pre post r
      else if c = CHR ''$'' \<and> d = CHR 0x60 then pre @ getSubstitution matched pre post r
      else if c = CHR ''$'' \<and> d = CHR 0x27 then post @ getSubstitution matched pre post r
      else c # getSubstitution matched pre post (d # r))"

text \<open>
  The matches are found from left to right and do not overlap: after a match the search
  goes on behind it (one character further for the empty pattern, which matches at every
  position and at the end). \<open>pre\<close> is the part of the subject already passed.
\<close>

function replaceAllFrom :: "string \<Rightarrow> string \<Rightarrow> string \<Rightarrow> string \<Rightarrow> string" where
  "replaceAllFrom pre rest pat repl =
     (if pat = [] then
        (case rest of
           [] \<Rightarrow> getSubstitution pat pre rest repl
         | c # cs \<Rightarrow> getSubstitution pat pre rest repl @ c # replaceAllFrom (pre @ [c]) cs pat repl)
      else if startsWith rest pat then
        getSubstitution pat pre (drop (length pat) rest) repl
          @ replaceAllFrom (pre @ pat) (drop (length pat) rest) pat repl
      else
        (case rest of
           [] \<Rightarrow> []
         | c # cs \<Rightarrow> c # replaceAllFrom (pre @ [c]) cs pat repl))"
  by pat_completeness auto
termination
proof (relation "measure (\<lambda>(pre, rest, pat, repl). length rest)")
  fix rest pat :: string
  assume "pat \<noteq> []" and "startsWith rest pat"
  then have "rest \<noteq> []"
    by (auto simp: startsWith_def)
  with \<open>pat \<noteq> []\<close>
  show "((pre @ pat, drop (length pat) rest, pat, repl), (pre, rest, pat, repl))
          \<in> measure (\<lambda>(pre, rest, pat, repl). length rest)" for pre repl :: string
    by simp
qed auto

declare replaceAllFrom.simps [simp del]

definition replaceAll :: "string \<Rightarrow> string \<Rightarrow> string \<Rightarrow> string" where
  "replaceAll s pat repl = replaceAllFrom [] s pat repl"

section \<open>The anchor-access grammar\<close>

text \<open>
  \<^verbatim>\<open>const serviceRegex = /^game:GetService\("([^"]+)"\)(.*)$/\<close>: the result is the pair
  of the two groups. The first group is the longest run of characters other than the
  double quote and must not be empty; the second is the rest of the string, which must
  hold no line terminator since \<^verbatim>\<open>$\<close> is the end of the input.
\<close>

definition serviceOpen :: string where
  \<open>serviceOpen = ''game:GetService("''\<close>

definition serviceClose :: string where
  \<open>serviceClose = ''")''\<close>

definition isQuote :: "char \<Rightarrow> bool" where
  "isQuote c \<longleftrightarrow> c = CHR 0x22"

definition matchServiceRegex :: "string \<Rightarrow> (string \<times> string) option" where
  "matchServiceRegex p =
     (if \<not> startsWith p serviceOpen then None
      else
        (let r = drop (length serviceOpen) p;
             name = takeWhile (\<lambda>c. \<not> isQuote c) r;
             r' = dropWhile (\<lambda>c. \<not> isQuote c) r
         in if name = [] then None
            else if \<not> startsWith r' serviceClose then None
            else
              (let rest = drop (length serviceClose) r'
               in if list_ex isLineTerminator rest then None else Some (name, rest))))"

text \<open>The template literal \<^verbatim>\<open>`game:GetService("${name}")`\<close>.\<close>

definition serviceAccess :: "string \<Rightarrow> string" where
  "serviceAccess name = serviceOpen @ name @ serviceClose"

section \<open>The primary rewriter\<close>

text \<open>
  Two patterns of the source begin with \<^verbatim>\<open>local\s+([a-zA-Z_]\w*)\s*=\<close>.
  \<open>matchLocalHead\<close> matches this at the start of \<open>s\<close> and returns the group, the
  variable name, with the text behind the equals sign. Every quantifier here is followed
  by something its own class excludes, so the greedy choice is the only one: all the
  white space (at least one character) after \<^verbatim>\<open>local\<close>, the whole identifier,
  all the white space before the equals sign.
\<close>

definition matchLocalHead :: "string \<Rightarrow> (string \<times> string) option" where
  "matchLocalHead s =
     (if \<not> startsWith s ''local'' then None
      else
        (let r1 = drop 5 s; r2 = dropWhile isSpace r1
         in if takeWhile isSpace r1 = [] then None
            else
              (case r2 of
                 [] \<Rightarrow> None
               | c # _ \<Rightarrow>
                   if \<not> isIdentStart c then None
                   else
                     (case dropWhile isSpace (dropWhile isWordChar r2) of
                        [] \<Rightarrow> None
                      | e # r4 \<Rightarrow>
                          if e \<noteq> CHR ''='' then None
                          else Some (takeWhile isWordChar r2, r4)))))"

text \<open>
  The pattern \<^verbatim>\<open>local\s+([a-zA-Z_]\w*)\s*=\s*game:GetService\("name"\)\<close>, where
  \<open>name\<close> is read character by character, matched at the start of \<open>s\<close>; the result
  is the group. Behind the equals sign all the white space is skipped and the service
  access must follow. Nothing anchors the end: the text may go on behind the closing
  parenthesis.
\<close>

definition matchServiceDeclAt :: "string \<Rightarrow> string \<Rightarrow> string option" where
  "matchServiceDeclAt name s =
     (case matchLocalHead s of
        None \<Rightarrow> None
      | Some (v, r4) \<Rightarrow>
          if startsWith (dropWhile isSpace r4) (serviceAccess name) then Some v else None)"

text \<open>
  \<^verbatim>\<open>regex.exec(text)\<close> without the global flag, for that pattern: the match at the
  leftmost position that has one.
\<close>

fun leftmostServiceDecl :: "string \<Rightarrow> string \<Rightarrow> string option" where
  "leftmostServiceDecl name [] = matchServiceDeclAt name []"
| "leftmostServiceDecl name (c # cs) =
     (case matchServiceDeclAt name (c # cs) of
        Some v \<Rightarrow> Some v
      | None \<Rightarrow> leftmostServiceDecl name cs)"

text \<open>
  The source of the pattern, as the template literal builds it: the service name goes
  into it as it is, not escaped.
\<close>

definition servicePattern :: "string \<Rightarrow> string" where
  \<open>servicePattern name =
     ''local'' @ [CHR 0x5C] @ ''s+([a-zA-Z_]'' @ [CHR 0x5C] @ ''w*)'' @ [CHR 0x5C] @ ''s*=''
       @ [CHR 0x5C] @ ''s*game:GetService'' @ [CHR 0x5C] @ ''("'' @ name @ ''"'' @ [CHR 0x5C] @ '')''\<close>

text \<open>
  \<^verbatim>\<open>new RegExp(source)\<close> and \<^verbatim>\<open>exec\<close>. A regular expression is modelled by what
  \<^verbatim>\<open>exec\<close> gives for a text: \<^verbatim>\<open>null\<close>, or a match with its first group, a string
  or \<^verbatim>\<open>undefined\<close>. The constructor of the runtime is the parameter \<open>engine\<close>: it
  gives the regular expression of a source, or nothing when it throws a
  \<^verbatim>\<open>SyntaxError\<close>.

  A service name without any syntax character of regular expressions stands for itself:
  the source is then the pattern of \<open>matchServiceDeclAt\<close>, and the regular expression
  is its leftmost match. With such a character in the name (a dot in a directory name
  is one) the source is another pattern, and the regular expression is what the engine
  makes of it.
\<close>

datatype ExecResult = NoMatch | Match "string option"

type_synonym RegExp = "string \<Rightarrow> ExecResult"

type_synonym RegExpEngine = "string \<Rightarrow> RegExp option"

definition regexSyntaxChars :: string where
  "regexSyntaxChars = ''^$.*+?()[]{}|'' @ [CHR 0x5C]"

definition literalName :: "string \<Rightarrow> bool" where
  "literalName name \<longleftrightarrow> list_all (\<lambda>c. c \<notin> set regexSyntaxChars) name"

definition newServiceRegExp :: "RegExpEngine \<Rightarrow> string \<Rightarrow> RegExp option" where
  "newServiceRegExp engine name =
     (if literalName name
      then Some (\<lambda>text. case leftmostServiceDecl name text of
                          None \<Rightarrow> NoMatch
                        | Some v \<Rightarrow> Match (Some v))
      else engine (servicePattern name))"

datatype error = SyntaxError

text \<open>
  Lines 184 to 191 of \<^verbatim>\<open>applyRefactorOnText\<close>, for one of the two services: the
  regular expression is built and run on the text, and the variable is the first group
  of the match, or \<^verbatim>\<open>null\<close>. An absent group and \<^verbatim>\<open>null\<close> are the same value
  \<open>None\<close> here: the code tells them apart nowhere (it compares with \<^verbatim>\<open>==\<close> and
  \<^verbatim>\<open>!=\<close> and tests truth). A \<^verbatim>\<open>SyntaxError\<close> of the constructor is not caught.
\<close>

definition serviceVariable :: "RegExpEngine \<Rightarrow> string \<Rightarrow> string \<Rightarrow> error + string option" where
  "serviceVariable engine serviceName text =
     (case newServiceRegExp engine serviceName of
        None \<Rightarrow> Inl SyntaxError
      | Some serviceRegex \<Rightarrow>
          Inr (case serviceRegex text of NoMatch \<Rightarrow> None | Match group1 \<Rightarrow> group1))"

text \<open>
  Lines 193 to 226 of \<^verbatim>\<open>applyRefactorOnText\<close>: the replacement, given the two
  variables. \<open>oldServiceVariable == newServiceVariable\<close> compares a string or
  \<^verbatim>\<open>null\<close> on both sides; \<^verbatim>\<open>else if (newServiceVariable)\<close> asks for a string that
  is not empty.
\<close>

definition truthy :: "string option \<Rightarrow> bool" where
  "truthy v = (case v of None \<Rightarrow> False | Some s \<Rightarrow> s \<noteq> [])"

definition primaryRewrite ::
  "string \<Rightarrow> string \<Rightarrow> string option \<Rightarrow> string option \<Rightarrow> string \<Rightarrow> string \<Rightarrow> string \<Rightarrow> string" where
  "primaryRewrite text oldPath oldServiceVariable newServiceVariable
       oldPathSuffix newServiceName newPathSuffix =
     (if oldServiceVariable \<noteq> None \<and> includesStr text (the oldServiceVariable @ oldPathSuffix)
      then
        (let oldGivenPath = the oldServiceVariable @ oldPathSuffix
         in if oldServiceVariable = newServiceVariable
            then replaceAll text oldGivenPath (the oldServiceVariable @ newPathSuffix)
            else if truthy newServiceVariable
            then replaceAll text oldGivenPath (the newServiceVariable @ newPathSuffix)
            else replaceAll text oldGivenPath (serviceAccess newServiceName @ newPathSuffix))
      else if includesStr text oldPath
      then
        (if oldServiceVariable = newServiceVariable \<and> oldServiceVariable \<noteq> None
              \<and> newServiceVariable \<noteq> None
         then replaceAll text oldPath (the oldServiceVariable @ newPathSuffix)
         else if truthy newServiceVariable
         then replaceAll text oldPath (the newServiceVariable @ newPathSuffix)
         else replaceAll text oldPath (serviceAccess newServiceName @ newPathSuffix))
      else text)"

section \<open>The alias index\<close>

text \<open>
  A \<^verbatim>\<open>Map<string, string>\<close> keeps its keys in the order of their first insertion;
  \<^verbatim>\<open>set\<close> on a key that is present changes the value in place.
\<close>

type_synonym varMap = "(string \<times> string) list"

fun mapSet :: "string \<Rightarrow> string \<Rightarrow> varMap \<Rightarrow> varMap" where
  "mapSet k v [] = [(k, v)]"
| "mapSet k v ((k', v') # m) = (if k' = k then (k, v) # m else (k', v') # mapSet k v m)"

text \<open>
  \<^verbatim>\<open>text.split(/\r?\n/)\<close>: the pieces between line feeds, each piece before a line
  feed without the carriage return that may end it.
\<close>

definition stripCR :: "string \<Rightarrow> string" where
  "stripCR s = (if s \<noteq> [] \<and> last s = CHR 0x0D then butlast s else s)"

definition splitLines :: "string \<Rightarrow> string list" where
  "splitLines text =
     (let ps = splitOn (CHR 0x0A) text in map stripCR (butlast ps) @ [last ps])"

text \<open>
  \<^verbatim>\<open>line.match(/^\s*local\s+([a-zA-Z_]\w*)\s*=\s*(.+)/)\<close>: the two groups. Behind
  the equals sign the white space \<open>w\<close> is skipped and the second group runs to the next
  line terminator. When nothing but white space follows the equals sign, the matcher
  gives white space back until the group can start: the group is then the last
  character of \<open>w\<close> that is no line terminator.
\<close>

definition assignedValue :: "string \<Rightarrow> string option" where
  "assignedValue r4 =
     (let w = takeWhile isSpace r4; r5 = dropWhile isSpace r4
      in if r5 = []
         then
           (case filter (\<lambda>c. \<not> isLineTerminator c) (rev w) of
              [] \<Rightarrow> None
            | c # _ \<Rightarrow> Some [c])
         else Some (takeWhile (\<lambda>c. \<not> isLineTerminator c) r5))"

definition matchAssign :: "string \<Rightarrow> (string \<times> string) option" where
  "matchAssign line =
     (case matchLocalHead (dropWhile isSpace line) of
        None \<Rightarrow> None
      | Some (v, r4) \<Rightarrow>
          (case assignedValue r4 of
             None \<Rightarrow> None
           | Some rawValue \<Rightarrow> Some (v, rawValue)))"

text \<open>The clean-up of the right-hand side: comment, white space, one final semicolon.\<close>

definition cleanRawValue :: "string \<Rightarrow> string" where
  "cleanRawValue rawValue =
     (let v1 = (if includesStr rawValue ''--'' then beforeFirst ''--'' rawValue else rawValue);
          v2 = trim v1
      in if endsWith v2 '';'' then trim (butlast v2) else v2)"

text \<open>The body of the loop over the lines, for one line and the map built so far.\<close>

definition parseLine :: "varMap \<Rightarrow> string \<Rightarrow> varMap" where
  "parseLine globalVarMap line =
     (case matchAssign line of
        None \<Rightarrow> globalVarMap
      | Some (varName, rawValue0) \<Rightarrow>
          (let rawValue = cleanRawValue rawValue0
           in if matchServiceRegex rawValue \<noteq> None then mapSet varName rawValue globalVarMap
              else
                (let parts = splitOn (CHR ''.'') rawValue;
                     potentialBaseVar = hd parts
                 in case map_of globalVarMap potentialBaseVar of
                      None \<Rightarrow> globalVarMap
                    | Some absoluteBasePath \<Rightarrow>
                        (let restOfPath = join ''.'' (tl parts);
                             finalAbsolutePath =
                               (if restOfPath \<noteq> [] then absoluteBasePath @ ''.'' @ restOfPath
                                else absoluteBasePath)
                         in mapSet varName finalAbsolutePath globalVarMap))))"

definition parseVariablesToAbsoluteMap :: "string \<Rightarrow> varMap" where
  "parseVariablesToAbsoluteMap text = foldl parseLine [] (splitLines text)"

section \<open>The nested-alias pass\<close>

record LongestVariable =
  variable :: string
  longestSnippetCount :: nat
  suffix :: string

text \<open>
  The loop \<^verbatim>\<open>for (let j = 0; j < pathSnippet.length; j++)\<close>, entered with the segments
  of the variable and of the path from index \<open>j\<close> on, and the current values of
  \<open>localBiggest\<close> and \<open>suffix\<close>. It counts equal segments and, at the first
  difference (or where the variable has no segment left), stores the rest of the path
  in \<open>suffix\<close> and leaves. When every segment of the path is matched, \<open>suffix\<close> keeps
  the value it had.
\<close>

fun snippetLoop :: "string list \<Rightarrow> string list \<Rightarrow> nat \<times> string \<Rightarrow> nat \<times> string" where
  "snippetLoop vs [] (localBiggest, sfx) = (localBiggest, sfx)"
| "snippetLoop [] (p # ps) (localBiggest, sfx) = (localBiggest, join ''.'' (p # ps))"
| "snippetLoop (v # vs) (p # ps) (localBiggest, sfx) =
     (if v = p then snippetLoop vs ps (localBiggest + 1, sfx)
      else (localBiggest, join ''.'' (p # ps)))"

text \<open>
  The callback of the first \<^verbatim>\<open>variableMap.forEach\<close>, on the state
  \<open>(biggestVariable, oldPaths)\<close>. \<open>localBiggest\<close> is set back to zero between the two
  loops; \<open>suffix\<close> is not.
\<close>

definition scanVariable ::
  "string list \<Rightarrow> string list \<Rightarrow> LongestVariable \<times> LongestVariable list \<Rightarrow> string \<times> string
     \<Rightarrow> LongestVariable \<times> LongestVariable list" where
  "scanVariable newPathSnippet oldPathSnippet st entry =
     (let biggestVariable = fst st; oldPaths = snd st;
          var = fst entry; relativePath = snd entry;
          variablePathSnippet = splitOn (CHR ''.'') relativePath;
          r1 = snippetLoop variablePathSnippet newPathSnippet (0, []);
          biggestVariable' =
            (if fst r1 > longestSnippetCount biggestVariable
             then \<lparr>variable = var, longestSnippetCount = fst r1, suffix = snd r1\<rparr>
             else biggestVariable);
          r2 = snippetLoop variablePathSnippet oldPathSnippet (0, snd r1)
      in (biggestVariable',
          oldPaths @ [\<lparr>variable = var, longestSnippetCount = fst r2, suffix = snd r2\<rparr>]))"

text \<open>\<^verbatim>\<open>v.variable + (v.variable == "" || v.suffix == "" ? "" : ".") + v.suffix\<close>.\<close>

definition literalForm :: "LongestVariable \<Rightarrow> string" where
  "literalForm v =
     variable v @ (if variable v = [] \<or> suffix v = [] then [] else ''.'') @ suffix v"

text \<open>
  \<^verbatim>\<open>oldPaths.sort((a, b) => b.longestSnippetCount - a.longestSnippetCount)\<close>: the sort
  of an array is stable, and so is \<open>sort_key\<close>.
\<close>

definition sortOldPaths :: "LongestVariable list \<Rightarrow> LongestVariable list" where
  "sortOldPaths oldPaths = sort_key (\<lambda>v. - int (longestSnippetCount v)) oldPaths"

text \<open>The callback of \<^verbatim>\<open>oldPaths.forEach\<close>, on the text.\<close>

definition replaceOldPath :: "string \<Rightarrow> string \<Rightarrow> LongestVariable \<Rightarrow> string" where
  "replaceOldPath calculatedNewPath text oldPath =
     (let path = literalForm oldPath
      in if includesStr text path then replaceAll text path calculatedNewPath else text)"

definition applyNestedRefactoring :: "string \<Rightarrow> string \<Rightarrow> string \<Rightarrow> string" where
  "applyNestedRefactoring text oldPath newPath =
     (let variableMap = parseVariablesToAbsoluteMap text
      in if variableMap = [] then text
         else
           (let newPathSnippet = splitOn (CHR ''.'') newPath;
                oldPathSnippet = splitOn (CHR ''.'') oldPath;
                st = foldl (scanVariable newPathSnippet oldPathSnippet)
                       (\<lparr>variable = [], longestSnippetCount = 0, suffix = newPath\<rparr>, [])
                       variableMap;
                calculatedNewPath = literalForm (fst st)
            in foldl (replaceOldPath calculatedNewPath) text (sortOldPaths (snd st))))"

section \<open>applyRefactorOnText\<close>

definition applyRefactorOnText ::
  "RegExpEngine \<Rightarrow> string \<Rightarrow> string \<Rightarrow> string \<Rightarrow> error + string" where
  "applyRefactorOnText engine text oldPath newPath =
     (case matchServiceRegex oldPath of
        None \<Rightarrow> Inr text
      | Some matchOld \<Rightarrow>
          (case matchServiceRegex newPath of
             None \<Rightarrow> Inr text
           | Some matchNew \<Rightarrow>
               (case serviceVariable engine (fst matchOld) text of
                  Inl e \<Rightarrow> Inl e
                | Inr oldServiceVariable \<Rightarrow>
                    (case serviceVariable engine (fst matchNew) text of
                       Inl e \<Rightarrow> Inl e
                     | Inr newServiceVariable \<Rightarrow>
                         Inr (applyNestedRefactoring
                                (primaryRewrite text oldPath oldServiceVariable
                                   newServiceVariable (snd matchOld) (fst matchNew) (snd matchNew))
                                oldPath newPath)))))"

text \<open>
  The loop over the moves in \<^verbatim>\<open>performBatchRefactoring\<close>, for the text of one file:
  each move sees the text the moves before it have left.
\<close>

record FileMovement =
  oldPath :: string
  newPath :: string

fun applyMoves :: "RegExpEngine \<Rightarrow> string \<Rightarrow> FileMovement list \<Rightarrow> error + string" where
  "applyMoves engine currentText [] = Inr currentText"
| "applyMoves engine currentText (move # moves) =
     (case applyRefactorOnText engine currentText (oldPath move) (newPath move) of
        Inl e \<Rightarrow> Inl e
      | Inr resultText \<Rightarrow>
          applyMoves engine (if resultText \<noteq> currentText then resultText else currentText) moves)"

section \<open>The logical path resolver\<close>

text \<open>
  \<^verbatim>\<open>path.dirname\<close> and \<^verbatim>\<open>path.basename\<close> of the runtime, in their POSIX form (the
  caller passes paths with forward slashes). \<open>basename\<close> is the last component, the
  slashes behind it left out. \<open>dirname\<close> looks from the end, and not at the first
  character, for the slash in front of the last component, and returns what is before
  that slash.
\<close>

definition isSlash :: "char \<Rightarrow> bool" where
  "isSlash c \<longleftrightarrow> c = CHR ''/''"

definition basename :: "string \<Rightarrow> string" where
  "basename p = rev (takeWhile (\<lambda>c. \<not> isSlash c) (dropWhile isSlash (rev p)))"

definition dirname :: "string \<Rightarrow> string" where
  "dirname p =
     (case p of
        [] \<Rightarrow> ''.''
      | c0 # cs \<Rightarrow>
          (let hasRoot = isSlash c0;
               r = dropWhile (\<lambda>c. \<not> isSlash c) (dropWhile isSlash (rev cs))
           in if r = [] then (if hasRoot then ''/'' else ''.'')
              else if hasRoot \<and> length r = 1 then ''//''
              else take (length r) p))"

text \<open>\<^verbatim>\<open>s.toLowerCase()\<close> on the code units of the model, and \<^verbatim>\<open>s.lastIndexOf(c)\<close>.\<close>

definition lowerChar :: "char \<Rightarrow> char" where
  "lowerChar c =
     (let n = (of_char c :: nat)
      in if (65 \<le> n \<and> n \<le> 90) \<or> (192 \<le> n \<and> n \<le> 222 \<and> n \<noteq> 215) then char_of (n + 32)
         else c)"

definition toLowerCase :: "string \<Rightarrow> string" where
  "toLowerCase s = map lowerChar s"

definition lastIndexOf :: "char \<Rightarrow> string \<Rightarrow> nat option" where
  "lastIndexOf d s =
     (if d \<in> set s then Some (length s - 1 - length (takeWhile (\<lambda>c. c \<noteq> d) (rev s)))
      else None)"

text \<open>
  The module name: the file name without \<^verbatim>\<open>.lua\<close> or \<^verbatim>\<open>.luau\<close>, and then
  without \<^verbatim>\<open>.server\<close>, \<^verbatim>\<open>.client\<close> or \<^verbatim>\<open>.shared\<close>, in any letter case.
\<close>

definition extractModuleName :: "string \<Rightarrow> string" where
  "extractModuleName filename =
     (case lastIndexOf (CHR ''.'') filename of
        None \<Rightarrow> filename
      | Some lastDotIndex \<Rightarrow>
          (let ext = toLowerCase (drop (lastDotIndex + 1) filename)
           in if ext = ''lua'' \<or> ext = ''luau''
              then
                (let moduleName = take lastDotIndex filename
                 in case lastIndexOf (CHR ''.'') moduleName of
                      None \<Rightarrow> moduleName
                    | Some secondLastDotIndex \<Rightarrow>
                        (let sfx = toLowerCase (drop (secondLastDotIndex + 1) moduleName)
                         in if sfx = ''server'' \<or> sfx = ''client'' \<or> sfx = ''shared''
                            then take secondLastDotIndex moduleName
                            else moduleName))
              else filename))"

definition formatRobloxName :: "string \<Rightarrow> string" where
  \<open>formatRobloxName name = (if CHR '' '' \<in> set name then ''["'' @ name @ ''"]'' else name)\<close>

text \<open>
  The step that occurs four times in \<^verbatim>\<open>convertToRobloxPath\<close>: a formatted name is
  appended as it is when it starts with a bracket, behind a dot otherwise.
\<close>

definition appendSegment :: "string \<Rightarrow> string \<Rightarrow> string" where
  "appendSegment result part =
     (let formatted = formatRobloxName part
      in if startsWith formatted ''['' then result @ formatted else result @ ''.'' @ formatted)"

text \<open>The loop over the parts in which the part of index 0 names the service.\<close>

definition appendServiceParts :: "string \<Rightarrow> string list \<Rightarrow> string" where
  "appendServiceParts result parts =
     (case parts of
        [] \<Rightarrow> result
      | part # rest \<Rightarrow> foldl appendSegment (result @ '':GetService('' @ [CHR 0x22] @ part @ serviceClose) rest)"

text \<open>
  A value of the project document: an object with its entries in the order of
  \<^verbatim>\<open>Object.entries\<close> (the keys are distinct), a string, or anything else.
\<close>

datatype ProjectTreeNode =
  Obj "(string \<times> ProjectTreeNode) list"
| Str string
| Other

fun findPathInTree :: "ProjectTreeNode \<Rightarrow> string \<Rightarrow> string list \<Rightarrow> string list option"
  and findPathInEntries ::
    "(string \<times> ProjectTreeNode) list \<Rightarrow> string \<Rightarrow> string list \<Rightarrow> string list option" where
  "findPathInTree (Obj entries) targetPath currentPath =
     (if map_of entries ''$path'' = Some (Str targetPath) then Some currentPath
      else findPathInEntries entries targetPath currentPath)"
| "findPathInTree (Str v) targetPath currentPath = None"
| "findPathInTree Other targetPath currentPath = None"
| "findPathInEntries [] targetPath currentPath = None"
| "findPathInEntries ((key, value) # entries) targetPath currentPath =
     (if startsWith key ''$'' then findPathInEntries entries targetPath currentPath
      else
        (case findPathInTree value targetPath (currentPath @ [key]) of
           Some result \<Rightarrow> Some result
         | None \<Rightarrow> findPathInEntries entries targetPath currentPath))"

text \<open>
  The loop \<^verbatim>\<open>for (let i = dirParts.length; i >= 0; i--)\<close>, entered at \<open>i\<close>: the
  first prefix of the directory that the tree binds, with the parts behind it. An array
  is a true value also when it is empty, so a match at the root of the tree ends the loop.
\<close>

fun searchTree ::
  "ProjectTreeNode \<Rightarrow> string list \<Rightarrow> nat \<Rightarrow> (string list \<times> string list) option" where
  "searchTree tree dirParts 0 =
     (case findPathInTree tree (join ''/'' (take 0 dirParts)) [] of
        Some treePath \<Rightarrow> Some (treePath, drop 0 dirParts)
      | None \<Rightarrow> None)"
| "searchTree tree dirParts (Suc i) =
     (case findPathInTree tree (join ''/'' (take (Suc i) dirParts)) [] of
        Some treePath \<Rightarrow> Some (treePath, drop (Suc i) dirParts)
      | None \<Rightarrow> searchTree tree dirParts i)"

definition isDirPart :: "string \<Rightarrow> bool" where
  "isDirPart part \<longleftrightarrow> part \<noteq> [] \<and> part \<noteq> ''.''"

definition startsWithInit :: "string \<Rightarrow> bool" where
  "startsWithInit moduleName \<longleftrightarrow> startsWith (toLowerCase moduleName) ''init''"

text \<open>
  The part of \<^verbatim>\<open>convertToRobloxPath\<close> behind the tree: the directory parts without a
  leading \<^verbatim>\<open>src\<close>, then the module name unless it starts with \<^verbatim>\<open>init\<close>.
\<close>

definition fallbackPath :: "string \<Rightarrow> string \<Rightarrow> string" where
  "fallbackPath dir moduleName =
     (let dirParts0 = filter isDirPart (splitOn (CHR ''/'') dir);
          dirParts = (if dirParts0 \<noteq> [] \<and> hd dirParts0 = ''src'' then tl dirParts0 else dirParts0);
          result = appendServiceParts ''game'' dirParts
      in if startsWithInit moduleName then result else appendSegment result moduleName)"

text \<open>
  \<open>tree\<close> is the \<^verbatim>\<open>tree\<close> property of the project document that
  \<^verbatim>\<open>getProjectJson\<close> reads, \<open>None\<close> when no workspace folder is given or no
  document with a tree is found there.
\<close>

definition convertToRobloxPath :: "string \<Rightarrow> ProjectTreeNode option \<Rightarrow> string" where
  "convertToRobloxPath filePath tree =
     (let dir = dirname filePath;
          filename = basename filePath;
          moduleName = extractModuleName filename
      in case tree of
           None \<Rightarrow> fallbackPath dir moduleName
         | Some projectTree \<Rightarrow>
             (let dirPathWithoutFilename = map (\<lambda>c. if c = CHR 0x5C then CHR ''/'' else c) dir;
                  dirParts = filter isDirPart (splitOn (CHR ''/'') dirPathWithoutFilename)
              in case searchTree projectTree dirParts (length dirParts) of
                   None \<Rightarrow> fallbackPath dir moduleName
                 | Some (matchedTreePath, remainingPathParts) \<Rightarrow>
                     if matchedTreePath \<noteq> []
                     then
                       (let result = foldl appendSegment
                                       (appendServiceParts ''game'' matchedTreePath)
                                       remainingPathParts
                        in if \<not> startsWithInit moduleName then appendSegment result moduleName
                           else result)
                     else fallbackPath dir moduleName))"

section \<open>The ignore list\<close>

text \<open>
  \<^verbatim>\<open>getIgnore\<close> builds an object of the ignore library. The object is modelled by
  the arguments of its \<^verbatim>\<open>add\<close> calls, in their order: a list of patterns, or the text
  of a document. Which paths such an object ignores is decided by the library. A
  workspace folder is modelled by what reading a file of it gives, the file named
  relative to the folder: the decoded text, or the failure that the \<^verbatim>\<open>catch\<close>
  block receives.
\<close>

datatype IgnoreRule = Patterns "string list" | Document string

type_synonym Ignore = "IgnoreRule list"

datatype FileRead = ReadError | Content string

type_synonym WorkspaceFolder = "string \<Rightarrow> FileRead"

definition IGNORE_NAME :: string where
  "IGNORE_NAME = ''.repathignore''"

definition getIgnore :: "WorkspaceFolder option \<Rightarrow> Ignore" where
  "getIgnore workspaceFolder =
     (let ig = [Patterns [''.git'', ''node_modules'']]
      in case workspaceFolder of
           None \<Rightarrow> ig
         | Some folder \<Rightarrow>
             (case folder IGNORE_NAME of
                Content content \<Rightarrow> ig @ [Document content]
              | ReadError \<Rightarrow> ig))"

section \<open>Notions used in the statements\<close>

text \<open>
  The components from which \<^verbatim>\<open>convertToRobloxPath\<close> builds the path of a directory:
  in the fallback the parts of the directory without a leading \<^verbatim>\<open>src\<close>; with a
  tree that binds a prefix of the directory to a path that is not empty, that path
  followed by the parts behind the prefix. The first component is the anchor.
\<close>

definition fallbackParts :: "string \<Rightarrow> string list" where
  "fallbackParts dir =
     (let dirParts0 = filter isDirPart (splitOn (CHR ''/'') dir)
      in if dirParts0 \<noteq> [] \<and> hd dirParts0 = ''src'' then tl dirParts0 else dirParts0)"

definition treeParts :: "string \<Rightarrow> ProjectTreeNode \<Rightarrow> string list option" where
  "treeParts dir projectTree =
     (let dirParts = filter isDirPart
                       (splitOn (CHR ''/'') (map (\<lambda>c. if c = CHR 0x5C then CHR ''/'' else c) dir))
      in case searchTree projectTree dirParts (length dirParts) of
           None \<Rightarrow> None
         | Some (matchedTreePath, remainingPathParts) \<Rightarrow>
             if matchedTreePath \<noteq> [] then Some (matchedTreePath @ remainingPathParts) else None)"

definition logicalParts :: "string \<Rightarrow> ProjectTreeNode option \<Rightarrow> string list" where
  "logicalParts dir tree =
     (case tree of
        None \<Rightarrow> fallbackParts dir
      | Some projectTree \<Rightarrow>
          (case treeParts dir projectTree of
             None \<Rightarrow> fallbackParts dir
           | Some parts \<Rightarrow> parts))"

text \<open>The logical path of a directory: its components, and no module name.\<close>

definition directoryPath :: "string \<Rightarrow> ProjectTreeNode option \<Rightarrow> string" where
  "directoryPath dir tree = appendServiceParts ''game'' (logicalParts dir tree)"

text \<open>
  How one line binds \<open>name\<close> to \<open>val\<close>, given the map built from the lines before
  it: the line declares \<open>name\<close>, and \<open>val\<close> is either the cleaned right-hand side
  itself, which matches the grammar, or the value that the map holds for the first
  component of the right-hand side, followed by the other components.
\<close>

definition bindingFrom :: "varMap \<Rightarrow> string \<Rightarrow> string \<Rightarrow> string \<Rightarrow> bool" where
  "bindingFrom earlier line name val =
     (case matchAssign line of
        None \<Rightarrow> False
      | Some (varName, rawValue0) \<Rightarrow>
          varName = name \<and>
          (let rawValue = cleanRawValue rawValue0
           in if matchServiceRegex rawValue \<noteq> None then val = rawValue
              else
                (case map_of earlier (hd (splitOn (CHR ''.'') rawValue)) of
                   None \<Rightarrow> False
                 | Some absoluteBasePath \<Rightarrow>
                     (let restOfPath = join ''.'' (tl (splitOn (CHR ''.'') rawValue))
                      in val = (if restOfPath \<noteq> [] then absoluteBasePath @ ''.'' @ restOfPath
                                else absoluteBasePath)))))"


text \<open>
  The state after the first \<^verbatim>\<open>forEach\<close> of \<open>applyNestedRefactoring\<close>: the best
  alias for the new path and the candidates for the old path, in the order of the map.
\<close>

definition scanVariables :: "string \<Rightarrow> string \<Rightarrow> string \<Rightarrow> LongestVariable \<times> LongestVariable list" where
  "scanVariables t old new =
     foldl (scanVariable (splitOn (CHR ''.'') new) (splitOn (CHR ''.'') old))
       (\<lparr>variable = [], longestSnippetCount = 0, suffix = new\<rparr>, [])
       (parseVariablesToAbsoluteMap t)"




text \<open>
  The substitution that the specification words: every occurrence of \<open>pat\<close>, from left
  to right and without overlap, gives way to the string \<open>new\<close> as it is.
\<close>

function substituteAll :: "string \<Rightarrow> string \<Rightarrow> string \<Rightarrow> string" where
  "substituteAll s pat new =
     (if pat = [] then (case s of [] \<Rightarrow> new | c # cs \<Rightarrow> new @ c # substituteAll cs pat new)
      else if startsWith s pat then new @ substituteAll (drop (length pat) s) pat new
      else (case s of [] \<Rightarrow> [] | c # cs \<Rightarrow> c # substituteAll cs pat new))"
  by pat_completeness auto
termination
proof (relation "measure (\<lambda>(s, pat, new). length s)")
  fix s pat :: string
  assume "pat \<noteq> []" and "startsWith s pat"
  then have "s \<noteq> []"
    by (auto simp: startsWith_def)
  with \<open>pat \<noteq> []\<close>
  show "((drop (length pat) s, pat, new), (s, pat, new)) \<in> measure (\<lambda>(s, pat, new). length s)"
    for new :: string
    by simp
qed auto

declare substituteAll.simps [simp del]

text \<open>
  The candidate that the specification words for an alias: the number of leading
  segments its path shares with the old path, and the segments of the old path behind
  them.
\<close>

fun commonPrefixLength :: "string list \<Rightarrow> string list \<Rightarrow> nat" where
  "commonPrefixLength (v # vs) (p # ps) = (if v = p then Suc (commonPrefixLength vs ps) else 0)"
| "commonPrefixLength vs ps = 0"

definition unmatchedSuffix :: "string list \<Rightarrow> string list \<Rightarrow> string" where
  "unmatchedSuffix vs ps = join ''.'' (drop (commonPrefixLength vs ps) ps)"

text \<open>A workspace folder with one source file and no ignore document.\<close>

definition exampleFolder :: WorkspaceFolder where
  "exampleFolder name = (if name = ''src/main.lua'' then Content ''return 1'' else ReadError)"

text \<open>
  An engine for the examples whose service names stand for themselves: it is never
  asked, and refuses every source.
\<close>

definition refusingEngine :: RegExpEngine where
  "refusingEngine source = None"

text \<open>Texts for the examples.\<close>

definition aliasText :: string where
  \<open>aliasText = ''local SSS = game:GetService("ServerScriptService")'' @ [CHR 0x0A] @
               ''local Sub = SSS.a.b; -- folder'' @ [CHR 0x0A] @
               ''local m = require(Sub.c)''\<close>

definition deepText :: string where
  \<open>deepText = ''local Deep = game:GetService("A").Sub'' @ [CHR 0x0A] @
     ''local S1 = game:GetService("A")'' @ [CHR 0x0A] @
     ''local S2 = game:GetService("A")'' @ [CHR 0x0A] @
     ''require(S1.Old)''\<close>




definition dollarText :: string where
  \<open>dollarText = ''local SSS = game:GetService("ServerScriptService")'' @ [CHR 0x0A] @
               ''local m = require(SSS.OldModule)''\<close>

definition staleText :: string where
  \<open>staleText = ''local S = game:GetService("A")'' @ [CHR 0x0A] @
               ''local T = S.Sub'' @ [CHR 0x0A] @
               ''local M = T.Old'' @ [CHR 0x0A] @
               ''print(M.New)''\<close>

section \<open>Properties of the resolver\<close>

lemma appendServiceParts_append:
  "ps \<noteq> [] \<Longrightarrow> foldl appendSegment (appendServiceParts r ps) qs = appendServiceParts r (ps @ qs)"
  by (cases ps) (simp_all add: appendServiceParts_def)

lemma fallbackPath_eq:
  "fallbackPath dir m =
     (if startsWithInit m then appendServiceParts ''game'' (fallbackParts dir)
      else appendSegment (appendServiceParts ''game'' (fallbackParts dir)) m)"
  by (simp add: fallbackPath_def fallbackParts_def Let_def)

text \<open>
  Both branches of \<^verbatim>\<open>convertToRobloxPath\<close> build the path of the directory and
  append the module name unless it starts with \<^verbatim>\<open>init\<close>.
\<close>

lemma convertToRobloxPath_eq:
  "convertToRobloxPath p tree =
     (if startsWithInit (extractModuleName (basename p)) then directoryPath (dirname p) tree
      else appendSegment (directoryPath (dirname p) tree) (extractModuleName (basename p)))"
  by (auto simp: convertToRobloxPath_def directoryPath_def logicalParts_def treeParts_def
        fallbackPath_eq Let_def appendServiceParts_append split: option.splits)

lemma appendSegment_prepend: "appendSegment (r @ x) part = r @ appendSegment x part"
  by (simp add: appendSegment_def Let_def)

lemma foldl_appendSegment_prepend:
  "foldl appendSegment (r @ x) parts = r @ foldl appendSegment x parts"
  by (induction parts arbitrary: x) (simp_all add: appendSegment_prepend)

lemma appendSegment_no_terminator:
  assumes "\<not> list_ex isLineTerminator x" and "\<not> list_ex isLineTerminator part"
  shows "\<not> list_ex isLineTerminator (appendSegment x part)"
  using assms
  by (auto simp: appendSegment_def formatRobloxName_def Let_def list_ex_iff isLineTerminator_def)

lemma foldl_appendSegment_no_terminator:
  assumes "\<not> list_ex isLineTerminator x"
    and "\<forall>part\<in>set parts. \<not> list_ex isLineTerminator part"
  shows "\<not> list_ex isLineTerminator (foldl appendSegment x parts)"
  using assms
  by (induction parts arbitrary: x) (simp_all add: appendSegment_no_terminator)

lemma startsWith_append_same: "startsWith (p @ s) p"
  by (simp add: startsWith_def)

text \<open>A service access with a plain name, followed by text of one line, is in the grammar.\<close>

lemma matchServiceRegex_serviceAccess:
  assumes "name \<noteq> []" and "\<not> list_ex isQuote name" and "\<not> list_ex isLineTerminator rest"
  shows "matchServiceRegex (serviceAccess name @ rest) = Some (name, rest)"
proof -
  have q: "isQuote (CHR 0x22)" by (simp add: isQuote_def)
  have nq: "\<forall>c\<in>set name. \<not> isQuote c" using assms(2) by (simp add: list_ex_iff)
  have tw: "takeWhile (\<lambda>c. \<not> isQuote c) (name @ serviceClose @ rest) = name"
    using nq q by (simp add: takeWhile_append2 serviceClose_def)
  have dw: "dropWhile (\<lambda>c. \<not> isQuote c) (name @ serviceClose @ rest) = serviceClose @ rest"
    using nq q by (simp add: dropWhile_append2 serviceClose_def)
  have sw: "startsWith (serviceOpen @ name @ serviceClose @ rest) serviceOpen"
    by (rule startsWith_append_same)
  show ?thesis
    unfolding matchServiceRegex_def serviceAccess_def
    using assms(1,3) by (simp add: sw tw dw startsWith_append_same Let_def)
qed

lemma appendServiceParts_game:
  "appendServiceParts ''game'' (anchor # rest) = serviceAccess anchor @ foldl appendSegment [] rest"
proof -
  have "''game'' @ '':GetService('' @ [CHR 0x22] @ anchor @ serviceClose = serviceAccess anchor @ []"
    by (simp add: serviceAccess_def serviceOpen_def)
  then show ?thesis
    unfolding appendServiceParts_def list.case
    by (simp only: foldl_appendSegment_prepend)
qed

lemma fallbackParts_nonempty:
  assumes "part \<in> set (fallbackParts dir)"
  shows "part \<noteq> []"
proof -
  have "set (fallbackParts dir) \<subseteq> set (filter isDirPart (splitOn (CHR ''/'') dir))"
    by (auto simp: fallbackParts_def Let_def dest: list.set_sel(2))
  with assms show ?thesis by (auto simp: isDirPart_def)
qed

text \<open>
  C4, as the claim states it, fails: a file at the root of the workspace has no
  directory component, and the resolver returns \<^verbatim>\<open>game.foo\<close>, which is not in the
  grammar.
\<close>

theorem rootless_path_is_not_well_formed:
  "''foo.lua'' \<noteq> [] \<and> matchServiceRegex (convertToRobloxPath ''foo.lua'' None) = None"
  by code_simp

text \<open>
  C4, amended. When the resolver has an anchor component for the directory of the path
  (the first of \<open>logicalParts\<close>), the anchor holds no double quote, and neither the
  other components nor the module name hold a line terminator, the result is in the
  grammar with that anchor, and the anchor is not empty. In the fallback a component is
  never empty; a key of the tree may be, hence the second assumption.
\<close>

theorem anchored_path_is_well_formed:
  assumes parts: "logicalParts (dirname p) tree = anchor # rest"
    and nonempty: "tree = None \<or> anchor \<noteq> []"
    and noquote: "\<not> list_ex isQuote anchor"
    and noterm: "\<forall>part\<in>set (rest @ [extractModuleName (basename p)]). \<not> list_ex isLineTerminator part"
  shows "anchor \<noteq> [] \<and> (\<exists>sfx. matchServiceRegex (convertToRobloxPath p tree) = Some (anchor, sfx))"
proof -
  have a: "anchor \<noteq> []"
  proof (cases tree)
    case None
    then have "anchor \<in> set (fallbackParts (dirname p))"
      using parts by (simp add: logicalParts_def)
    then show ?thesis by (rule fallbackParts_nonempty)
  next
    case (Some t)
    with nonempty show ?thesis by simp
  qed
  let ?m = "extractModuleName (basename p)"
  let ?d = "foldl appendSegment [] rest"
  have d: "\<not> list_ex isLineTerminator ?d"
    using noterm by (intro foldl_appendSegment_no_terminator) simp_all
  have dm: "\<not> list_ex isLineTerminator (appendSegment ?d ?m)"
    using d noterm by (intro appendSegment_no_terminator) simp_all
  have "convertToRobloxPath p tree =
          serviceAccess anchor @ (if startsWithInit ?m then ?d else appendSegment ?d ?m)"
    by (simp add: convertToRobloxPath_eq directoryPath_def parts appendServiceParts_game
          appendSegment_prepend)
  moreover have "matchServiceRegex
        (serviceAccess anchor @ (if startsWithInit ?m then ?d else appendSegment ?d ?m))
      = Some (anchor, if startsWithInit ?m then ?d else appendSegment ?d ?m)"
    using a noquote d dm by (intro matchServiceRegex_serviceAccess) simp_all
  ultimately show ?thesis using a by auto
qed

theorem anchored_path_is_well_formed_witness:
  \<open>logicalParts (dirname ''src/ServerScriptService/MyModule.lua'') None = ''ServerScriptService'' # [] \<and>
   ''ServerScriptService'' \<noteq> [] \<and>
   (\<exists>sfx. matchServiceRegex (convertToRobloxPath ''src/ServerScriptService/MyModule.lua'' None)
            = Some (''ServerScriptService'', sfx))\<close>
proof -
  have h1: "logicalParts (dirname ''src/ServerScriptService/MyModule.lua'') None
              = ''ServerScriptService'' # []"
    by code_simp
  have h2: "(None :: ProjectTreeNode option) = None \<or> ''ServerScriptService'' \<noteq> []"
    by simp
  have h3: "\<not> list_ex isQuote ''ServerScriptService''"
    by code_simp
  have h4: "\<forall>part\<in>set ([] @ [extractModuleName (basename ''src/ServerScriptService/MyModule.lua'')]).
              \<not> list_ex isLineTerminator part"
    by code_simp
  show ?thesis
    using h1 anchored_path_is_well_formed [OF h1 h2 h3 h4] by blast
qed

text \<open>
  C5, as the claim states it, fails: the path of the bare directory is read as a file
  named \<^verbatim>\<open>ServerScriptService\<close> in the directory \<^verbatim>\<open>src\<close>.
\<close>

theorem init_file_differs_from_bare_directory:
  "convertToRobloxPath ''src/ServerScriptService/init.server.lua'' None
     \<noteq> convertToRobloxPath ''src/ServerScriptService'' None"
  by code_simp

text \<open>
  C5, amended. With any tree or none, \<^verbatim>\<open>src/ServerScriptService/init.server.lua\<close>
  and its \<^verbatim>\<open>.luau\<close> variant resolve to the logical path of the directory that holds
  them, with no segment for the module name; without a tree that path is the service
  access itself. The path \<^verbatim>\<open>src/ServerScriptService\<close>, given as the file path,
  resolves to \<^verbatim>\<open>game.ServerScriptService\<close>.
\<close>

theorem init_file_resolves_to_its_directory:
  \<open>convertToRobloxPath ''src/ServerScriptService/init.server.lua'' tree
     = directoryPath ''src/ServerScriptService'' tree \<and>
   convertToRobloxPath ''src/ServerScriptService/init.server.luau'' tree
     = directoryPath ''src/ServerScriptService'' tree \<and>
   directoryPath ''src/ServerScriptService'' None = ''game:GetService("ServerScriptService")'' \<and>
   convertToRobloxPath ''src/ServerScriptService'' None = ''game.ServerScriptService''\<close>
proof -
  have "startsWithInit (extractModuleName (basename ''src/ServerScriptService/init.server.lua''))"
    by code_simp
  moreover have "dirname ''src/ServerScriptService/init.server.lua'' = ''src/ServerScriptService''"
    by code_simp
  ultimately have lua: "convertToRobloxPath ''src/ServerScriptService/init.server.lua'' tree
      = directoryPath ''src/ServerScriptService'' tree"
    by (simp only: convertToRobloxPath_eq if_True)
  have "startsWithInit (extractModuleName (basename ''src/ServerScriptService/init.server.luau''))"
    by code_simp
  moreover have "dirname ''src/ServerScriptService/init.server.luau'' = ''src/ServerScriptService''"
    by code_simp
  ultimately have luau: "convertToRobloxPath ''src/ServerScriptService/init.server.luau'' tree
      = directoryPath ''src/ServerScriptService'' tree"
    by (simp only: convertToRobloxPath_eq if_True)
  have dir: \<open>directoryPath ''src/ServerScriptService'' None = ''game:GetService("ServerScriptService")''\<close>
    by code_simp
  have bare: "convertToRobloxPath ''src/ServerScriptService'' None = ''game.ServerScriptService''"
    by code_simp
  from lua luau dir bare show ?thesis by blast
qed

text \<open>
  C9. Whenever the module name taken from the path starts with the letters
  \<^verbatim>\<open>init\<close> in any letter case, also when it goes on behind them as in
  \<^verbatim>\<open>Initializer.lua\<close>, the result has no segment for the module name: it is the logical
  path of the directory of the file, with any tree or none.
\<close>

theorem init_prefix_omits_module_name:
  assumes "startsWithInit (extractModuleName (basename p))"
  shows "convertToRobloxPath p tree = directoryPath (dirname p) tree"
  using assms by (simp add: convertToRobloxPath_eq)

theorem init_prefix_omits_module_name_witness:
  \<open>startsWithInit (extractModuleName (basename ''src/ServerScriptService/Initializer.lua'')) \<and>
   convertToRobloxPath ''src/ServerScriptService/Initializer.lua'' None
     = ''game:GetService("ServerScriptService")'' \<and>
   convertToRobloxPath ''src/ServerScriptService/Initializer.lua'' None
     = convertToRobloxPath ''src/ServerScriptService/init.lua'' None\<close>
proof -
  have h: "startsWithInit (extractModuleName (basename ''src/ServerScriptService/Initializer.lua''))"
    by code_simp
  have d: \<open>directoryPath (dirname ''src/ServerScriptService/Initializer.lua'') None
             = ''game:GetService("ServerScriptService")''\<close>
    by code_simp
  have i: \<open>convertToRobloxPath ''src/ServerScriptService/init.lua'' None
             = ''game:GetService("ServerScriptService")''\<close>
    by code_simp
  show ?thesis
    using h d i init_prefix_omits_module_name [OF h, of None] by simp
qed

section \<open>Moves outside the grammar\<close>

lemma applyMoves_append:
  "applyMoves engine t (ms @ ms') =
     (case applyMoves engine t ms of Inl e \<Rightarrow> Inl e | Inr t' \<Rightarrow> applyMoves engine t' ms')"
  by (induction ms arbitrary: t) (auto split: sum.splits)

text \<open>
  C6. When the old or the new logical path does not match the anchor-access grammar,
  \<open>applyRefactorOnText\<close> returns the text it was given, as a value and not as an
  error, whatever the text and the engine are; and such a move anywhere in a batch
  leaves the outcome of the batch what it is without that move.
\<close>

theorem malformed_move_is_skipped:
  assumes "matchServiceRegex old = None \<or> matchServiceRegex new = None"
  shows "applyRefactorOnText engine text old new = Inr text \<and>
         applyMoves engine text (ms @ \<lparr>oldPath = old, newPath = new\<rparr> # ms')
           = applyMoves engine text (ms @ ms')"
proof -
  have skip: "applyRefactorOnText engine t old new = Inr t" for t
    using assms by (auto simp: applyRefactorOnText_def split: option.splits)
  have "applyMoves engine t (\<lparr>oldPath = old, newPath = new\<rparr> # ms') = applyMoves engine t ms'" for t
    by (simp add: skip)
  then have "applyMoves engine text (ms @ \<lparr>oldPath = old, newPath = new\<rparr> # ms')
               = applyMoves engine text (ms @ ms')"
    by (simp add: applyMoves_append split: sum.splits)
  with skip show ?thesis by simp
qed

theorem malformed_move_is_skipped_witness:
  \<open>(matchServiceRegex ''game.Old'' = None \<or> matchServiceRegex ''game:GetService("A").New'' = None) \<and>
   applyRefactorOnText refusingEngine ''require(game.Old)'' ''game.Old'' ''game:GetService("A").New''
     = Inr ''require(game.Old)'' \<and>
   applyMoves refusingEngine ''require(game.Old)''
       ([] @ \<lparr>oldPath = ''game.Old'', newPath = ''game:GetService("A").New''\<rparr> # [])
     = applyMoves refusingEngine ''require(game.Old)'' ([] @ [])\<close>
proof -
  have h: \<open>matchServiceRegex ''game.Old'' = None \<or> matchServiceRegex ''game:GetService("A").New'' = None\<close>
    by (simp add: matchServiceRegex_def startsWith_def serviceOpen_def)
  show ?thesis
    using h malformed_move_is_skipped [OF h, of refusingEngine "''require(game.Old)''" "[]" "[]"]
    by blast
qed

section \<open>The alias index holds resolved paths\<close>

lemma set_mapSet: "set (mapSet k v m) \<subseteq> insert (k, v) (set m)"
  by (induction k v m rule: mapSet.induct) auto

lemma splitOn_nonempty: "splitOn d s \<noteq> []"
  by (induction s) (simp_all add: Let_def)

lemma join_splitOn: "join [d] (splitOn d s) = s"
proof (induction s)
  case Nil
  then show ?case by simp
next
  case (Cons c s)
  obtain y ys where r: "splitOn d s = y # ys"
    using splitOn_nonempty [of d s] by (cases "splitOn d s") auto
  show ?case
  proof (cases "c = d")
    case True
    with Cons r show ?thesis by simp
  next
    case False
    with Cons r show ?thesis by (cases ys) (simp_all add: Let_def)
  qed
qed

lemma set_join_tl_splitOn: "set (join [d] (tl (splitOn d s))) \<subseteq> set s"
proof -
  obtain y ys where r: "splitOn d s = y # ys"
    using splitOn_nonempty [of d s] by (cases "splitOn d s") auto
  have "s = join [d] (y # ys)"
    using join_splitOn [of d s] r by simp
  then have "set (join [d] ys) \<subseteq> set s"
    by (cases ys) auto
  with r show ?thesis by simp
qed

lemma startsWithD: "startsWith s p \<Longrightarrow> s = p @ drop (length p) s"
  by (metis append_take_drop_id startsWith_def)

lemma matchServiceRegex_SomeD:
  assumes "matchServiceRegex b = Some (name, rest)"
  shows "b = serviceAccess name @ rest \<and> name \<noteq> [] \<and> \<not> list_ex isQuote name
           \<and> \<not> list_ex isLineTerminator rest"
proof -
  let ?r = "drop (length serviceOpen) b"
  let ?n = "takeWhile (\<lambda>c. \<not> isQuote c) ?r"
  let ?r' = "dropWhile (\<lambda>c. \<not> isQuote c) ?r"
  from assms have sw: "startsWith b serviceOpen"
    by (auto simp: matchServiceRegex_def split: if_splits)
  from assms sw have n: "?n \<noteq> []" and sc: "startsWith ?r' serviceClose"
    and res: "name = ?n" "rest = drop (length serviceClose) ?r'"
    and lt: "\<not> list_ex isLineTerminator (drop (length serviceClose) ?r')"
    by (auto simp: matchServiceRegex_def Let_def split: if_splits)
  have "b = serviceOpen @ ?r" using sw by (rule startsWithD)
  also have "?r = ?n @ ?r'" by simp
  also have "?r' = serviceClose @ drop (length serviceClose) ?r'" using sc by (rule startsWithD)
  finally have "b = serviceAccess name @ rest"
    using res by (simp add: serviceAccess_def)
  moreover have "\<not> list_ex isQuote name"
    unfolding res list_ex_iff using set_takeWhileD by fastforce
  ultimately show ?thesis using n res lt by simp
qed

lemma matchServiceRegex_append:
  assumes "matchServiceRegex b \<noteq> None" and "\<not> list_ex isLineTerminator t"
  shows "matchServiceRegex (b @ t) \<noteq> None"
proof -
  from assms(1) obtain name rest where m: "matchServiceRegex b = Some (name, rest)"
    by auto
  note d = matchServiceRegex_SomeD [OF m]
  have "matchServiceRegex (serviceAccess name @ (rest @ t)) = Some (name, rest @ t)"
    using d assms(2) by (intro matchServiceRegex_serviceAccess) simp_all
  with d show ?thesis by simp
qed

lemma assignedValue_no_terminator:
  assumes "assignedValue r4 = Some raw"
  shows "\<not> list_ex isLineTerminator raw"
proof (cases "dropWhile isSpace r4 = []")
  case True
  with assms obtain c cs where
    f: "filter (\<lambda>c. \<not> isLineTerminator c) (rev (takeWhile isSpace r4)) = c # cs" and raw: "raw = [c]"
    by (auto simp: assignedValue_def Let_def split: list.splits)
  have "c \<in> set (filter (\<lambda>c. \<not> isLineTerminator c) (rev (takeWhile isSpace r4)))"
    unfolding f by simp
  with raw show ?thesis by simp
next
  case False
  with assms have "raw = takeWhile (\<lambda>c. \<not> isLineTerminator c) (dropWhile isSpace r4)"
    unfolding assignedValue_def Let_def by (simp only: if_False option.inject)
  then show ?thesis
    unfolding list_ex_iff using set_takeWhileD by fastforce
qed

lemma matchAssign_no_terminator:
  assumes "matchAssign line = Some (v, raw)"
  shows "\<not> list_ex isLineTerminator raw"
proof -
  from assms obtain r4 where "assignedValue r4 = Some raw"
    by (auto simp: matchAssign_def split: option.splits)
  then show ?thesis by (rule assignedValue_no_terminator)
qed

lemma set_beforeFirst: "set (beforeFirst p s) \<subseteq> set s"
  by (induction s) auto

lemma set_trim: "set (trim s) \<subseteq> set s"
proof
  fix x
  assume "x \<in> set (trim s)"
  then have "x \<in> set (dropWhile isSpace (rev (dropWhile isSpace s)))"
    by (simp add: trim_def)
  then have "x \<in> set (rev (dropWhile isSpace s))"
    by (rule set_dropWhileD)
  then have "x \<in> set (dropWhile isSpace s)"
    by simp
  then show "x \<in> set s"
    by (rule set_dropWhileD)
qed

lemma set_cleanRawValue: "set (cleanRawValue raw) \<subseteq> set raw"
proof -
  let ?v1 = "if includesStr raw ''--'' then beforeFirst ''--'' raw else raw"
  have v1: "set ?v1 \<subseteq> set raw" using set_beforeFirst by simp
  have v2: "set (trim ?v1) \<subseteq> set raw" using set_trim v1 by blast
  have "set (trim (butlast (trim ?v1))) \<subseteq> set (butlast (trim ?v1))" by (rule set_trim)
  also have "\<dots> \<subseteq> set (trim ?v1)" by (auto dest: in_set_butlastD)
  finally have v3: "set (trim (butlast (trim ?v1))) \<subseteq> set raw" using v2 by blast
  show ?thesis
    unfolding cleanRawValue_def Let_def using v2 v3 by (simp split: if_splits)
qed

lemma parseLine_cases:
  assumes "(name, val) \<in> set (parseLine m line)"
  shows "(name, val) \<in> set m \<or> bindingFrom m line name val"
proof (cases "matchAssign line")
  case None
  with assms show ?thesis by (simp add: parseLine_def)
next
  case (Some r)
  obtain varName raw0 where r: "r = (varName, raw0)" by (cases r)
  let ?raw = "cleanRawValue raw0"
  show ?thesis
  proof (cases "matchServiceRegex ?raw \<noteq> None")
    case True
    with assms Some r have "(name, val) \<in> set (mapSet varName ?raw m)"
      by (simp add: parseLine_def)
    then have "(name, val) = (varName, ?raw) \<or> (name, val) \<in> set m"
      using set_mapSet by blast
    with Some r True show ?thesis
      by (auto simp: bindingFrom_def)
  next
    case False
    show ?thesis
    proof (cases "map_of m (hd (splitOn (CHR ''.'') ?raw))")
      case None
      with assms Some r False show ?thesis by (simp add: parseLine_def Let_def)
    next
      case (Some base)
      let ?rest = "join ''.'' (tl (splitOn (CHR ''.'') ?raw))"
      let ?final = "if ?rest \<noteq> [] then base @ ''.'' @ ?rest else base"
      from assms \<open>matchAssign line = Some r\<close> r False Some
      have "(name, val) \<in> set (mapSet varName ?final m)"
        by (simp add: parseLine_def Let_def)
      then have "(name, val) = (varName, ?final) \<or> (name, val) \<in> set m"
        using set_mapSet by blast
      with \<open>matchAssign line = Some r\<close> r False Some show ?thesis
        by (auto simp: bindingFrom_def Let_def)
    qed
  qed
qed

lemma bindingFrom_well_formed:
  assumes inv: "\<forall>(k, v)\<in>set m. matchServiceRegex v \<noteq> None"
    and b: "bindingFrom m line name val"
  shows "matchServiceRegex val \<noteq> None"
proof -
  from b obtain raw0 where ma: "matchAssign line = Some (name, raw0)"
    by (auto simp: bindingFrom_def split: option.splits)
  let ?raw = "cleanRawValue raw0"
  show ?thesis
  proof (cases "matchServiceRegex ?raw \<noteq> None")
    case True
    with b ma show ?thesis by (simp add: bindingFrom_def)
  next
    case False
    let ?rest = "join ''.'' (tl (splitOn (CHR ''.'') ?raw))"
    from b ma False obtain base where
      base: "map_of m (hd (splitOn (CHR ''.'') ?raw)) = Some base" and
      val: "val = (if ?rest \<noteq> [] then base @ ''.'' @ ?rest else base)"
      by (auto simp: bindingFrom_def Let_def split: option.splits)
    from base inv have wf: "matchServiceRegex base \<noteq> None"
      by (auto dest: map_of_SomeD)
    have "set ?rest \<subseteq> set raw0"
      using set_join_tl_splitOn [of "CHR ''.''" ?raw] set_cleanRawValue [of raw0] by auto
    moreover have "\<not> list_ex isLineTerminator raw0"
      using ma by (rule matchAssign_no_terminator)
    ultimately have "\<not> list_ex isLineTerminator (''.'' @ ?rest)"
      by (auto simp: list_ex_iff isLineTerminator_def)
    with wf have "matchServiceRegex (base @ ''.'' @ ?rest) \<noteq> None"
      by (rule matchServiceRegex_append)
    with wf val show ?thesis by simp
  qed
qed

lemma parsed_lines_resolved:
  assumes "(name, val) \<in> set (foldl parseLine [] ls)"
  shows "matchServiceRegex val \<noteq> None \<and>
         (\<exists>i<length ls. bindingFrom (foldl parseLine [] (take i ls)) (ls ! i) name val)"
  using assms
proof (induction ls arbitrary: name val rule: rev_induct)
  case Nil
  then show ?case by simp
next
  case (snoc l ls)
  let ?m = "foldl parseLine [] ls"
  have inv: "\<forall>(k, v)\<in>set ?m. matchServiceRegex v \<noteq> None"
    using snoc.IH by blast
  from snoc.prems have "(name, val) \<in> set (parseLine ?m l)" by simp
  then consider (old) "(name, val) \<in> set ?m" | (new) "bindingFrom ?m l name val"
    using parseLine_cases by blast
  then show ?case
  proof cases
    case old
    then obtain i where "matchServiceRegex val \<noteq> None" "i < length ls"
      "bindingFrom (foldl parseLine [] (take i ls)) (ls ! i) name val"
      using snoc.IH by blast
    then show ?thesis
      by (auto simp: nth_append intro!: exI [of _ i])
  next
    case new
    then have "matchServiceRegex val \<noteq> None"
      using inv bindingFrom_well_formed by blast
    with new show ?thesis
      by (auto intro!: exI [of _ "length ls"])
  qed
qed

text \<open>
  C7. Every value in the map that \<open>parseVariablesToAbsoluteMap\<close> builds matches the
  anchor-access grammar, and every binding comes from one line of the text: the value is
  the cleaned right-hand side of that line, or one substitution into it of a value held
  by the map built from the lines before that line. No value refers to a binding of its
  own line or of a later one.
\<close>

theorem alias_index_is_resolved:
  assumes "(name, val) \<in> set (parseVariablesToAbsoluteMap text)"
  shows "matchServiceRegex val \<noteq> None \<and>
         (\<exists>i<length (splitLines text).
            bindingFrom (foldl parseLine [] (take i (splitLines text))) (splitLines text ! i) name val)"
  using assms unfolding parseVariablesToAbsoluteMap_def by (rule parsed_lines_resolved)

theorem alias_index_is_resolved_witness:
  \<open>(''Sub'', ''game:GetService("ServerScriptService").a.b'') \<in> set (parseVariablesToAbsoluteMap aliasText) \<and>
   matchServiceRegex ''game:GetService("ServerScriptService").a.b'' \<noteq> None \<and>
   (\<exists>i<length (splitLines aliasText).
      bindingFrom (foldl parseLine [] (take i (splitLines aliasText))) (splitLines aliasText ! i)
        ''Sub'' ''game:GetService("ServerScriptService").a.b'')\<close>
proof -
  have h: \<open>(''Sub'', ''game:GetService("ServerScriptService").a.b'')
             \<in> set (parseVariablesToAbsoluteMap aliasText)\<close>
    by code_simp
  show ?thesis
    using h alias_index_is_resolved [OF h] by blast
qed

section \<open>The ignore list without a document\<close>

text \<open>
  C8. When reading \<^verbatim>\<open>.repathignore\<close> in the workspace folder fails, because the file
  does not exist or cannot be read, \<open>getIgnore\<close> returns the object that holds the two
  built-in patterns \<^verbatim>\<open>.git\<close> and \<^verbatim>\<open>node_modules\<close> and nothing else: whatever
  the library decides for an object, it decides for the result what it decides for these
  two patterns. The failure of the read is not passed on; the result is an object.
\<close>

theorem missing_ignore_document_gives_defaults:
  assumes "folder ''.repathignore'' = ReadError"
  shows "getIgnore (Some folder) = [Patterns [''.git'', ''node_modules'']] \<and>
         ignores (getIgnore (Some folder)) path = ignores [Patterns [''.git'', ''node_modules'']] path"
  using assms by (simp add: getIgnore_def IGNORE_NAME_def)

theorem missing_ignore_document_gives_defaults_witness:
  "exampleFolder ''.repathignore'' = ReadError \<and>
   getIgnore (Some exampleFolder) = [Patterns [''.git'', ''node_modules'']]"
proof -
  have h: "exampleFolder ''.repathignore'' = ReadError"
    by (simp add: exampleFolder_def)
  have "getIgnore (Some exampleFolder) = [Patterns [''.git'', ''node_modules'']]"
    by (rule missing_ignore_document_gives_defaults [of exampleFolder, OF h, THEN conjunct1])
  with h show ?thesis by (rule conjI)
qed

section \<open>The variable of a service\<close>

lemma matchLocalHead_nonempty:
  assumes "matchLocalHead s = Some (v, r)"
  shows "v \<noteq> []"
proof -
  let ?r2 = "dropWhile isSpace (drop 5 s)"
  from assms obtain c cs where r2: "?r2 = c # cs" and c: "isIdentStart c"
    and v: "v = takeWhile isWordChar ?r2"
    by (auto simp: matchLocalHead_def Let_def split: if_splits list.splits)
  from c have "isWordChar c"
    by (auto simp: isIdentStart_def isWordChar_def Let_def)
  with r2 v show ?thesis by simp
qed

lemma matchServiceDeclAt_nonempty:
  assumes "matchServiceDeclAt name s = Some v"
  shows "v \<noteq> []"
  using assms matchLocalHead_nonempty
  by (auto simp: matchServiceDeclAt_def split: option.splits if_splits)

lemma leftmostServiceDecl_leftmost:
  assumes "matchServiceDeclAt name (drop i t) = Some v"
    and "\<forall>j<i. matchServiceDeclAt name (drop j t) = None"
  shows "leftmostServiceDecl name t = Some v"
  using assms
proof (induction t arbitrary: i)
  case Nil
  then show ?case by simp
next
  case (Cons c cs)
  show ?case
  proof (cases i)
    case 0
    with Cons.prems show ?thesis by simp
  next
    case (Suc k)
    with Cons.prems have here: "matchServiceDeclAt name (c # cs) = None"
      by (metis drop0 zero_less_Suc)
    from Suc Cons.prems have "matchServiceDeclAt name (drop k cs) = Some v"
      by simp
    moreover have "\<forall>j<k. matchServiceDeclAt name (drop j cs) = None"
    proof (intro allI impI)
      fix j assume "j < k"
      then have "Suc j < i" using Suc by simp
      with Cons.prems(2) have "matchServiceDeclAt name (drop (Suc j) (c # cs)) = None" by blast
      then show "matchServiceDeclAt name (drop j cs) = None" by simp
    qed
    ultimately have "leftmostServiceDecl name cs = Some v" by (rule Cons.IH)
    with here show ?thesis by simp
  qed
qed

text \<open>For a name that stands for itself the engine is not asked.\<close>

lemma serviceVariable_literal:
  assumes "literalName name"
  shows "serviceVariable engine name t = Inr (leftmostServiceDecl name t)"
  using assms by (simp add: serviceVariable_def newServiceRegExp_def split: option.splits)

lemma applyRefactorOnText_literal:
  assumes "matchServiceRegex old = Some (oldName, osfx)"
    and "matchServiceRegex new = Some (newName, nsfx)"
    and "literalName oldName" and "literalName newName"
  shows "applyRefactorOnText engine t old new =
           Inr (applyNestedRefactoring
                  (primaryRewrite t old (leftmostServiceDecl oldName t)
                     (leftmostServiceDecl newName t) osfx newName nsfx)
                  old new)"
  using assms by (simp add: applyRefactorOnText_def serviceVariable_literal)

text \<open>
  What holds of C10. For a service name that stands for itself, the variable is that of
  the leftmost match of the pattern in the text; matches further right are never taken.
\<close>

lemma leftmost_match_is_the_variable:
  assumes "literalName name"
    and "matchServiceDeclAt name (drop i t) = Some v"
    and "\<forall>j<i. matchServiceDeclAt name (drop j t) = None"
  shows "serviceVariable engine name t = Inr (Some v)"
  using assms by (simp add: serviceVariable_literal leftmostServiceDecl_leftmost)

text \<open>
  C10, where the code departs from the claim. The text declares two variables bound to
  the service \<^verbatim>\<open>A\<close>, \<^verbatim>\<open>S1\<close> and \<^verbatim>\<open>S2\<close>, behind a variable bound to a child of
  the service; the alias index resolves the three as such. The pattern of the lookup has
  no end, so its leftmost match is the declaration of \<^verbatim>\<open>Deep\<close>. With \<^verbatim>\<open>Deep\<close>
  as the variable of the service the primary rewriter finds nothing to replace; with
  \<^verbatim>\<open>S1\<close>, the first declaration of the claim, it would rewrite the reference. The
  nested pass then rewrites the reference to \<^verbatim>\<open>Deep.New\<close>.
\<close>

theorem deeper_declaration_is_taken_as_alias:
  \<open>parseVariablesToAbsoluteMap deepText =
     [(''Deep'', ''game:GetService("A").Sub''), (''S1'', ''game:GetService("A")''),
      (''S2'', ''game:GetService("A")'')] \<and>
   serviceVariable engine ''A'' deepText = Inr (Some ''Deep'') \<and>
   primaryRewrite deepText ''game:GetService("A").Old'' (Some ''Deep'') (Some ''Deep'')
       ''.Old'' ''A'' ''.New'' = deepText \<and>
   primaryRewrite deepText ''game:GetService("A").Old'' (Some ''S1'') (Some ''S1'')
       ''.Old'' ''A'' ''.New''
     = ''local Deep = game:GetService("A").Sub'' @ [CHR 0x0A] @
       ''local S1 = game:GetService("A")'' @ [CHR 0x0A] @
       ''local S2 = game:GetService("A")'' @ [CHR 0x0A] @
       ''require(S1.New)'' \<and>
   applyRefactorOnText engine deepText ''game:GetService("A").Old'' ''game:GetService("A").New''
     = Inr (''local Deep = game:GetService("A").Sub'' @ [CHR 0x0A] @
            ''local S1 = game:GetService("A")'' @ [CHR 0x0A] @
            ''local S2 = game:GetService("A")'' @ [CHR 0x0A] @
            ''require(Deep.New)'')\<close>
proof -
  have lit: "literalName ''A''"
    by code_simp
  have index: \<open>parseVariablesToAbsoluteMap deepText =
     [(''Deep'', ''game:GetService("A").Sub''), (''S1'', ''game:GetService("A")''),
      (''S2'', ''game:GetService("A")'')]\<close>
    by code_simp
  have leftmost: "leftmostServiceDecl ''A'' deepText = Some ''Deep''"
    by code_simp
  have deep: \<open>primaryRewrite deepText ''game:GetService("A").Old'' (Some ''Deep'') (Some ''Deep'')
       ''.Old'' ''A'' ''.New'' = deepText\<close>
    by code_simp
  have first: \<open>primaryRewrite deepText ''game:GetService("A").Old'' (Some ''S1'') (Some ''S1'')
       ''.Old'' ''A'' ''.New''
     = ''local Deep = game:GetService("A").Sub'' @ [CHR 0x0A] @
       ''local S1 = game:GetService("A")'' @ [CHR 0x0A] @
       ''local S2 = game:GetService("A")'' @ [CHR 0x0A] @
       ''require(S1.New)''\<close>
    by code_simp
  have old: \<open>matchServiceRegex ''game:GetService("A").Old'' = Some (''A'', ''.Old'')\<close>
    by code_simp
  have new: \<open>matchServiceRegex ''game:GetService("A").New'' = Some (''A'', ''.New'')\<close>
    by code_simp
  have nested: \<open>applyNestedRefactoring deepText ''game:GetService("A").Old'' ''game:GetService("A").New''
     = ''local Deep = game:GetService("A").Sub'' @ [CHR 0x0A] @
       ''local S1 = game:GetService("A")'' @ [CHR 0x0A] @
       ''local S2 = game:GetService("A")'' @ [CHR 0x0A] @
       ''require(Deep.New)''\<close>
    by code_simp
  have whole: \<open>applyRefactorOnText engine deepText ''game:GetService("A").Old'' ''game:GetService("A").New''
     = Inr (''local Deep = game:GetService("A").Sub'' @ [CHR 0x0A] @
            ''local S1 = game:GetService("A")'' @ [CHR 0x0A] @
            ''local S2 = game:GetService("A")'' @ [CHR 0x0A] @
            ''require(Deep.New)'')\<close>
    unfolding applyRefactorOnText_literal [OF old new lit lit] leftmost deep nested ..
  from index leftmost deep first whole show ?thesis
    by (simp only: serviceVariable_literal [OF lit] simp_thms)
qed

section \<open>The replacement of the primary rewriter\<close>

lemma getSubstitution_without_dollar:
  assumes "CHR ''$'' \<notin> set repl"
  shows "getSubstitution m pre post repl = repl"
  using assms by (induction m pre post repl rule: getSubstitution.induct) auto

lemma replaceAllFrom_without_dollar:
  assumes "CHR ''$'' \<notin> set repl"
  shows "replaceAllFrom pre s pat repl = substituteAll s pat repl"
  using assms
proof (induction pre s pat repl rule: replaceAllFrom.induct)
  case (1 pre rest pat repl)
  from "1.prems" have g: "getSubstitution m b a repl = repl" for m b a
    by (rule getSubstitution_without_dollar)
  show ?case
  proof (cases "pat = []")
    case True
    then show ?thesis
      using "1.IH"(1) "1.prems"
      by (subst replaceAllFrom.simps, subst substituteAll.simps) (auto simp: g split: list.splits)
  next
    case False
    show ?thesis
    proof (cases "startsWith rest pat")
      case True
      then show ?thesis
        using False "1.IH"(2) "1.prems"
        by (subst replaceAllFrom.simps, subst substituteAll.simps) (simp add: g)
    next
      case nsw: False
      then show ?thesis
        using False "1.IH"(3) "1.prems"
        by (subst replaceAllFrom.simps, subst substituteAll.simps) (auto split: list.splits)
    qed
  qed
qed

lemma replaceAll_without_dollar:
  "CHR ''$'' \<notin> set repl \<Longrightarrow> replaceAll s pat repl = substituteAll s pat repl"
  by (simp add: replaceAll_def replaceAllFrom_without_dollar)

lemma leftmostServiceDecl_SomeD:
  assumes "leftmostServiceDecl name t = Some v"
  shows "\<exists>s. matchServiceDeclAt name s = Some v"
  using assms by (induction t) (auto split: option.splits)

text \<open>The variable found for a name that stands for itself is an identifier.\<close>

lemma alias_without_dollar:
  assumes "leftmostServiceDecl name t = Some v"
  shows "v \<noteq> [] \<and> CHR ''$'' \<notin> set v"
proof -
  from assms obtain s where m: "matchServiceDeclAt name s = Some v"
    using leftmostServiceDecl_SomeD by blast
  then obtain r4 where h: "matchLocalHead s = Some (v, r4)"
    by (auto simp: matchServiceDeclAt_def split: option.splits if_splits)
  then have "v = takeWhile isWordChar (dropWhile isSpace (drop 5 s))"
    by (auto simp: matchLocalHead_def Let_def split: if_splits list.splits)
  then have "\<forall>c\<in>set v. isWordChar c"
    using set_takeWhileD by fastforce
  moreover have "\<not> isWordChar (CHR ''$'')"
    by (simp add: isWordChar_def)
  ultimately have "CHR ''$'' \<notin> set v" by blast
  with m show ?thesis
    using matchServiceDeclAt_nonempty by blast
qed

text \<open>
  What holds of C2. With no dollar sign in the new service name, the new suffix and the
  variable of the new service (an identifier has none), the primary rewriter substitutes
  the string \<open>replacement\<close> as it is: the variable of the new service when the text
  declares one (the variable of the old service, where the two are the same), the
  service access otherwise, followed by the new suffix. It does so for the variable of
  the old service followed by the old suffix when that occurs in the text, and for the
  old path otherwise.
\<close>

lemma primaryRewrite_policy:
  assumes "CHR ''$'' \<notin> set newName" and "CHR ''$'' \<notin> set nsfx"
    and "case newVar of None \<Rightarrow> True | Some w \<Rightarrow> w \<noteq> [] \<and> CHR ''$'' \<notin> set w"
  shows "primaryRewrite t old oldVar newVar osfx newName nsfx =
     (let replacement = (case newVar of Some w \<Rightarrow> w | None \<Rightarrow> serviceAccess newName) @ nsfx
      in case oldVar of
           Some v \<Rightarrow>
             if includesStr t (v @ osfx) then substituteAll t (v @ osfx) replacement
             else if includesStr t old then substituteAll t old replacement
             else t
         | None \<Rightarrow> if includesStr t old then substituteAll t old replacement else t)"
proof -
  have access: "CHR ''$'' \<notin> set (serviceAccess newName @ nsfx)"
    using assms by (auto simp: serviceAccess_def serviceOpen_def serviceClose_def)
  show ?thesis
  proof (cases newVar)
    case None
    then show ?thesis
      using access
      by (auto simp: primaryRewrite_def Let_def truthy_def replaceAll_without_dollar
            split: option.splits)
  next
    case (Some w)
    then have "w \<noteq> []" and "CHR ''$'' \<notin> set (w @ nsfx)"
      using assms(2,3) by simp_all
    with Some show ?thesis
      by (auto simp: primaryRewrite_def Let_def truthy_def replaceAll_without_dollar
            split: option.splits)
  qed
qed

text \<open>
  C2, where the code departs from the claim. The file \<^verbatim>\<open>Cash$$Shop.lua\<close> resolves to
  a path with two dollar signs. The claim replaces \<^verbatim>\<open>SSS.OldModule\<close> with
  \<^verbatim>\<open>SSS.Cash$$Shop\<close>; \<^verbatim>\<open>replaceAll\<close> reads the two dollar signs of its second
  argument as one, and the text refers to \<^verbatim>\<open>SSS.Cash$Shop\<close>.
\<close>

theorem dollar_signs_in_new_path_collapse:
  \<open>convertToRobloxPath ''src/ServerScriptService/Cash$$Shop.lua'' None
     = ''game:GetService("ServerScriptService").Cash$$Shop'' \<and>
   applyRefactorOnText engine dollarText ''game:GetService("ServerScriptService").OldModule''
       ''game:GetService("ServerScriptService").Cash$$Shop''
     = Inr (''local SSS = game:GetService("ServerScriptService")'' @ [CHR 0x0A] @
            ''local m = require(SSS.Cash$Shop)'') \<and>
   substituteAll dollarText ''SSS.OldModule'' ''SSS.Cash$$Shop''
     = ''local SSS = game:GetService("ServerScriptService")'' @ [CHR 0x0A] @
       ''local m = require(SSS.Cash$$Shop)''\<close>
proof -
  have resolved: \<open>convertToRobloxPath ''src/ServerScriptService/Cash$$Shop.lua'' None
     = ''game:GetService("ServerScriptService").Cash$$Shop''\<close>
    by code_simp
  have lit: "literalName ''ServerScriptService''"
    by code_simp
  have old: \<open>matchServiceRegex ''game:GetService("ServerScriptService").OldModule''
               = Some (''ServerScriptService'', ''.OldModule'')\<close>
    by code_simp
  have new: \<open>matchServiceRegex ''game:GetService("ServerScriptService").Cash$$Shop''
               = Some (''ServerScriptService'', ''.Cash$$Shop'')\<close>
    by code_simp
  have rewritten: \<open>applyNestedRefactoring
       (primaryRewrite dollarText ''game:GetService("ServerScriptService").OldModule''
          (leftmostServiceDecl ''ServerScriptService'' dollarText)
          (leftmostServiceDecl ''ServerScriptService'' dollarText)
          ''.OldModule'' ''ServerScriptService'' ''.Cash$$Shop'')
       ''game:GetService("ServerScriptService").OldModule''
       ''game:GetService("ServerScriptService").Cash$$Shop''
     = ''local SSS = game:GetService("ServerScriptService")'' @ [CHR 0x0A] @
       ''local m = require(SSS.Cash$Shop)''\<close>
    by code_simp
  have code: \<open>applyRefactorOnText engine dollarText ''game:GetService("ServerScriptService").OldModule''
       ''game:GetService("ServerScriptService").Cash$$Shop''
     = Inr (''local SSS = game:GetService("ServerScriptService")'' @ [CHR 0x0A] @
            ''local m = require(SSS.Cash$Shop)'')\<close>
    unfolding applyRefactorOnText_literal [OF old new lit lit] rewritten ..
  have literal: \<open>substituteAll dollarText ''SSS.OldModule'' ''SSS.Cash$$Shop''
     = ''local SSS = game:GetService("ServerScriptService")'' @ [CHR 0x0A] @
       ''local m = require(SSS.Cash$$Shop)''\<close>
    by code_simp
  from resolved code literal show ?thesis by (intro conjI)
qed

section \<open>A repeated pass\<close>








subsection \<open>No occurrence is left by a substitution\<close>











subsection \<open>A text without an equals sign declares nothing\<close>











section \<open>The candidates of the nested pass\<close>

lemma commonPrefixLength_le: "commonPrefixLength vs ps \<le> length ps"
  by (induction vs ps rule: commonPrefixLength.induct) auto

lemma snippetLoop_eq:
  "snippetLoop vs ps (n, sfx) =
     (n + commonPrefixLength vs ps,
      if commonPrefixLength vs ps < length ps then unmatchedSuffix vs ps else sfx)"
  by (induction vs ps "(n, sfx)" arbitrary: n rule: snippetLoop.induct)
     (auto simp: unmatchedSuffix_def)

text \<open>
  What the nested pass records for one alias: the count is that of the specification;
  the suffix is the unmatched rest of the old path only when the old path is not matched
  to its end. When it is, the suffix is what the loop over the new path has left.
\<close>

lemma scanVariable_candidate:
  "snd (scanVariable newSn oldSn (big, olds) (var, path)) =
     olds @
     [\<lparr>variable = var,
       longestSnippetCount = commonPrefixLength (splitOn (CHR ''.'') path) oldSn,
       suffix =
         (if commonPrefixLength (splitOn (CHR ''.'') path) oldSn < length oldSn
          then unmatchedSuffix (splitOn (CHR ''.'') path) oldSn
          else if commonPrefixLength (splitOn (CHR ''.'') path) newSn < length newSn
          then unmatchedSuffix (splitOn (CHR ''.'') path) newSn
          else [])\<rparr>]"
  by (simp add: scanVariable_def Let_def snippetLoop_eq)

text \<open>
  C3, where the code departs from the claim. \<^verbatim>\<open>M\<close> is bound to the old path
  itself, so nothing of the old path is left unmatched and the literal form of the claim
  is \<^verbatim>\<open>M\<close>. The code keeps in \<open>suffix\<close> what the loop over the new path stored,
  searches for \<^verbatim>\<open>M.New\<close> and rewrites \<^verbatim>\<open>print(M.New)\<close>.
\<close>

theorem stale_suffix_of_full_match:
  \<open>parseVariablesToAbsoluteMap staleText =
     [(''S'', ''game:GetService("A")''), (''T'', ''game:GetService("A").Sub''),
      (''M'', ''game:GetService("A").Sub.Old'')] \<and>
   unmatchedSuffix (splitOn (CHR ''.'') ''game:GetService("A").Sub.Old'')
       (splitOn (CHR ''.'') ''game:GetService("A").Sub.Old'') = [] \<and>
   sortOldPaths (snd (scanVariables staleText ''game:GetService("A").Sub.Old''
                        ''game:GetService("A").Sub.New''))
     = [\<lparr>variable = ''M'', longestSnippetCount = 3, suffix = ''New''\<rparr>,
        \<lparr>variable = ''T'', longestSnippetCount = 2, suffix = ''Old''\<rparr>,
        \<lparr>variable = ''S'', longestSnippetCount = 1, suffix = ''Sub.Old''\<rparr>] \<and>
   applyNestedRefactoring staleText ''game:GetService("A").Sub.Old'' ''game:GetService("A").Sub.New''
     = ''local S = game:GetService("A")'' @ [CHR 0x0A] @
       ''local T = S.Sub'' @ [CHR 0x0A] @
       ''local M = T.New'' @ [CHR 0x0A] @
       ''print(T.New)''\<close>
  by code_simp

end
